theory Spec2Isabelle
  imports Complex_Main
begin

section \<open>Values, variables and the host document\<close>

text \<open>
  The plugin \<^verbatim>\<open>src/plugin-src/print.ts\<close> reads design variables from the Figma host and
  writes formatted strings into text nodes. Strings are lists of code units; the model
  covers code units below 256, which holds every character the source itself mentions.

  Exceptions are values: \<^verbatim>\<open>throw new Error(msg)\<close> is \<open>Error msg\<close>, and the engine's
  \<^verbatim>\<open>TypeError\<close> (a property read or method call on \<^verbatim>\<open>undefined\<close> or \<^verbatim>\<open>null\<close>) is
  \<open>TypeError\<close>.
\<close>

datatype error = Error string | TypeError

text \<open>
  Modelled from the spec: the host's type \<^verbatim>\<open>VariableValue\<close> is declared in the Figma plugin
  typings, not in the repository. Following section 3 of the specification it is a boolean,
  a string, a number, a color (\<^verbatim>\<open>RGB\<close> with fields r, g, b or \<^verbatim>\<open>RGBA\<close> with r, g, b, a) or
  an alias \<^verbatim>\<open>{type: "VARIABLE_ALIAS", id}\<close>. \<open>Undefined\<close> is what JavaScript yields for a
  missing property or a missing array element. The number type \<open>'n\<close> is left open: its
  arithmetic is supplied by the runtime (record \<open>lib\<close> below).
\<close>

datatype 'n VariableValue =
    Undefined
  | Boolean bool
  | String string
  | Number 'n
  | RGB (prop_r: 'n) (prop_g: 'n) (prop_b: 'n)
  | RGBA (prop_r: 'n) (prop_g: 'n) (prop_b: 'n) (prop_a: 'n)
  | VariableAlias (prop_id: string)

text \<open>The operator \<^verbatim>\<open>typeof\<close>, the own keys of a value, and the operator \<^verbatim>\<open>in\<close>.\<close>

fun typeof :: "'n VariableValue \<Rightarrow> string" where
  "typeof Undefined = ''undefined''"
| "typeof (Boolean _) = ''boolean''"
| "typeof (String _) = ''string''"
| "typeof (Number _) = ''number''"
| "typeof (RGB _ _ _) = ''object''"
| "typeof (RGBA _ _ _ _) = ''object''"
| "typeof (VariableAlias _) = ''object''"

fun keys :: "'n VariableValue \<Rightarrow> string list" where
  "keys (RGB _ _ _) = [''r'', ''g'', ''b'']"
| "keys (RGBA _ _ _ _) = [''r'', ''g'', ''b'', ''a'']"
| "keys (VariableAlias _) = [''type'', ''id'']"
| "keys _ = []"

definition has_key :: "string \<Rightarrow> 'n VariableValue \<Rightarrow> bool" where
  "has_key k v = (k \<in> set (keys v))"

text \<open>The property \<^verbatim>\<open>type\<close> of a value; only an alias has one.\<close>

fun prop_type :: "'n VariableValue \<Rightarrow> string option" where
  "prop_type (VariableAlias _) = Some ''VARIABLE_ALIAS''"
| "prop_type _ = None"

record 'n Variable =
  variable_id :: string
  variable_name :: string
  variableCollectionId :: string
  valuesByMode :: "string \<rightharpoonup> 'n VariableValue"

record VariableCollection =
  collection_id :: string

datatype NodeType = TEXT | OTHER

record SceneNode =
  node_type :: NodeType
  node_name :: string
  resolvedVariableModes :: "string \<rightharpoonup> string"
  fontName :: string
  characters :: string

text \<open>
  The host object \<^verbatim>\<open>figma\<close>: the local variables in the order the host returns them, the
  two lookups by id (\<open>None\<close> is JavaScript's \<^verbatim>\<open>null\<close>), the nodes of the current page in the
  order \<^verbatim>\<open>findAll\<close> visits them, and font loading (\<open>Some e\<close> when the promise rejects).
\<close>

record 'n figma =
  getLocalVariables :: "'n Variable list"
  getVariableById :: "string \<Rightarrow> 'n Variable option"
  getVariableCollectionById :: "string \<Rightarrow> VariableCollection option"
  currentPage :: "SceneNode list"
  loadFontAsync :: "string \<Rightarrow> error option"

text \<open>
  What the runtime and the library \<^verbatim>\<open>color2k\<close> supply: multiplication of numbers, the
  literal 255, \<^verbatim>\<open>Number.prototype.toString\<close>, and the two color formatters.
\<close>

record 'n lib =
  number_times :: "'n \<Rightarrow> 'n \<Rightarrow> 'n"
  number_255 :: 'n
  number_toString :: "'n \<Rightarrow> string"
  color2k_rgba :: "'n \<Rightarrow> 'n \<Rightarrow> 'n \<Rightarrow> 'n \<Rightarrow> string"
  color2k_toHex :: "string \<Rightarrow> error + string"

text \<open>Property access \<^verbatim>\<open>variable.valuesByMode[modeId]\<close>: a missing key reads as undefined.\<close>

definition value_at :: "'n Variable \<Rightarrow> string \<Rightarrow> 'n VariableValue" where
  "value_at variable modeId =
     (case valuesByMode variable modeId of None \<Rightarrow> Undefined | Some v \<Rightarrow> v)"

section \<open>The helper functions of the source\<close>

text \<open>
  \<^verbatim>\<open>isVariableAlias\<close> (lines 184-191). Every value of type object is truthy, so the test
  \<^verbatim>\<open>!value\<close> adds nothing to the test on \<^verbatim>\<open>typeof\<close>.
\<close>

definition isVariableAlias :: "'n VariableValue \<Rightarrow> bool" where
  "isVariableAlias v =
     (if typeof v = ''object'' then
        (if has_key ''type'' v then prop_type v = Some ''VARIABLE_ALIAS'' else False)
      else False)"

text \<open>
  \<^verbatim>\<open>evaluateVariable\<close> (lines 122-131). The recursion follows the alias chain and need not
  end, so the result is an option: \<open>None\<close> when the chain never reaches a terminal value.
  The non-null assertion on \<^verbatim>\<open>getVariableById\<close> is erased at run time; on \<^verbatim>\<open>null\<close> the
  recursive call reads \<^verbatim>\<open>valuesByMode\<close> of \<^verbatim>\<open>null\<close> and throws a TypeError.
\<close>

partial_function (option) evaluateVariable ::
  "'n figma \<Rightarrow> 'n Variable \<Rightarrow> string \<Rightarrow> (error + 'n VariableValue) option" where
  "evaluateVariable F variable modeId =
     (if isVariableAlias (value_at variable modeId) then
        (case getVariableById F (prop_id (value_at variable modeId)) of
           None \<Rightarrow> Some (Inl TypeError)
         | Some boundVariable \<Rightarrow> evaluateVariable F boundVariable modeId)
      else Some (Inr (value_at variable modeId)))"

text \<open>\<^verbatim>\<open>getBoundedName\<close> (lines 140-148); \<open>Inr None\<close> is the returned \<^verbatim>\<open>null\<close>.\<close>

definition getBoundedName ::
  "'n figma \<Rightarrow> 'n Variable \<Rightarrow> string \<Rightarrow> error + string option" where
  "getBoundedName F variable modeId =
     (if isVariableAlias (value_at variable modeId) then
        (case getVariableById F (prop_id (value_at variable modeId)) of
           None \<Rightarrow> Inl TypeError
         | Some boundVariable \<Rightarrow> Inr (Some (variable_name boundVariable)))
      else Inr None)"

text \<open>
  \<^verbatim>\<open>getRGBA\<close> (lines 156-176). A falsy value of the type (undefined, false, 0, NaN, the empty
  string) is not of type object, so both halves of the first test lead to the first throw.
\<close>

record 'n RGBA_record =
  rgba_r :: 'n
  rgba_g :: 'n
  rgba_b :: 'n
  rgba_a :: 'n

definition getRGBA :: "'n lib \<Rightarrow> 'n VariableValue \<Rightarrow> error + 'n RGBA_record" where
  "getRGBA L variableValue =
     (if typeof variableValue = ''object'' then
        (if has_key ''r'' variableValue \<and> has_key ''g'' variableValue \<and>
            has_key ''b'' variableValue \<and> has_key ''a'' variableValue
         then Inr \<lparr>rgba_r = number_times L (prop_r variableValue) (number_255 L),
                   rgba_g = number_times L (prop_g variableValue) (number_255 L),
                   rgba_b = number_times L (prop_b variableValue) (number_255 L),
                   rgba_a = prop_a variableValue\<rparr>
         else Inl (Error ''Variable value is not an RGBA object''))
      else Inl (Error ''Variable value is not an object''))"

section \<open>String operations of the runtime\<close>

text \<open>\<^verbatim>\<open>String.prototype.startsWith\<close> and \<^verbatim>\<open>String.prototype.includes\<close>.\<close>

definition startsWith :: "string \<Rightarrow> string \<Rightarrow> bool" where
  "startsWith s p = (take (length p) s = p)"

fun string_includes :: "string \<Rightarrow> string \<Rightarrow> bool" where
  "string_includes [] p = (p = [])"
| "string_includes (c # cs) p = (if startsWith (c # cs) p then True else string_includes cs p)"

text \<open>
  \<^verbatim>\<open>String.prototype.trim\<close> strips white space and line terminators at both ends; below
  256 these are the code units 9 to 13, 32 and 160.
\<close>

definition is_white_space :: "char \<Rightarrow> bool" where
  "is_white_space c =
     (c \<in> set [CHR 0x09, CHR 0x0A, CHR 0x0B, CHR 0x0C, CHR 0x0D, CHR 0x20, CHR 0xA0])"

definition trim :: "string \<Rightarrow> string" where
  "trim s = rev (dropWhile is_white_space (rev (dropWhile is_white_space s)))"

text \<open>
  \<^verbatim>\<open>String.prototype.replaceAll\<close> with a string pattern. The replacement text is expanded
  by the runtime's \<^verbatim>\<open>GetSubstitution\<close>: with no capture groups, \<^verbatim>\<open>$$\<close> is a dollar sign,
  \<^verbatim>\<open>$&\<close> the matched text, \<^verbatim>\<open>$`\<close> the text before the match and \<^verbatim>\<open>$'\<close> the text after it.
  Matches are found from left to right and do not overlap.
\<close>

fun getSubstitution :: "string \<Rightarrow> string \<Rightarrow> string \<Rightarrow> string \<Rightarrow> string" where
  "getSubstitution matched preceding following [] = []"
| "getSubstitution matched preceding following [c] = [c]"
| "getSubstitution matched preceding following (c # d # rest) =
     (if c = CHR ''$'' then
        (if d = CHR ''$'' then CHR ''$'' # getSubstitution matched preceding following rest
         else if d = CHR ''&'' then matched @ getSubstitution matched preceding following rest
         else if d = CHR 0x60 then preceding @ getSubstitution matched preceding following rest
         else if d = CHR 0x27 then following @ getSubstitution matched preceding following rest
         else c # getSubstitution matched preceding following (d # rest))
      else c # getSubstitution matched preceding following (d # rest))"

fun replaceAll_from :: "string \<Rightarrow> string \<Rightarrow> string \<Rightarrow> nat \<Rightarrow> string \<Rightarrow> string" where
  "replaceAll_from p rep preceding skip [] = []"
| "replaceAll_from p rep preceding skip (c # cs) =
     (if 0 < skip then replaceAll_from p rep (preceding @ [c]) (skip - 1) cs
      else if startsWith (c # cs) p
        then getSubstitution p preceding (drop (length p) (c # cs)) rep
             @ replaceAll_from p rep (preceding @ [c]) (length p - 1) cs
      else c # replaceAll_from p rep (preceding @ [c]) 0 cs)"

fun replaceAll_empty :: "string \<Rightarrow> string \<Rightarrow> string \<Rightarrow> string" where
  "replaceAll_empty rep preceding [] = getSubstitution [] preceding [] rep"
| "replaceAll_empty rep preceding (c # cs) =
     getSubstitution [] preceding (c # cs) rep @ c # replaceAll_empty rep (preceding @ [c]) cs"

definition replaceAll :: "string \<Rightarrow> string \<Rightarrow> string \<Rightarrow> string" where
  "replaceAll s p rep =
     (if p = [] then replaceAll_empty rep [] s else replaceAll_from p rep [] 0 s)"

text \<open>The decimal text of a count, as a template literal prints it.\<close>

fun decimal :: "nat \<Rightarrow> string" where
  "decimal n =
     (if n < 10 then [char_of (48 + n)]
      else decimal (n div 10) @ [char_of (48 + n mod 10)])"

text \<open>
  The regular expression of line 52, \<^verbatim>\<open>/%printf\("(.*)", (.*)\)/\<close>, as \<^verbatim>\<open>String.prototype.match\<close>
  runs it: the leftmost start wins; both groups are greedy, the first one tried from its
  longest candidate down; the dot matches every code unit except a line terminator (below
  256: line feed and carriage return). The result is the pair of the two groups.
\<close>

definition dot :: "char \<Rightarrow> bool" where
  "dot c = (if c = CHR 0x0A then False else if c = CHR 0x0D then False else True)"

definition match_group2 :: "string \<Rightarrow> string option" where
  "match_group2 s =
     (if CHR '')'' \<in> set (takeWhile dot s)
      then Some (rev (tl (dropWhile (\<lambda>c. c \<noteq> CHR '')'') (rev (takeWhile dot s)))))
      else None)"

definition try_group1 :: "string \<Rightarrow> nat \<Rightarrow> (string \<times> string) option" where
  "try_group1 s k =
     (if startsWith (drop k s) ''\", '' then
        (case match_group2 (drop (k + 3) s) of
           None \<Rightarrow> None
         | Some g2 \<Rightarrow> Some (take k s, g2))
      else None)"

fun match_group1 :: "string \<Rightarrow> nat \<Rightarrow> (string \<times> string) option" where
  "match_group1 s 0 = try_group1 s 0"
| "match_group1 s (Suc k) =
     (case try_group1 s (Suc k) of
        Some m \<Rightarrow> Some m
      | None \<Rightarrow> match_group1 s k)"

definition match_at :: "string \<Rightarrow> (string \<times> string) option" where
  "match_at s =
     (if startsWith s ''%printf(\"''
      then match_group1 (drop 9 s) (length (takeWhile dot (drop 9 s)))
      else None)"

fun regex_match :: "string \<Rightarrow> (string \<times> string) option" where
  "regex_match [] = None"
| "regex_match (c # cs) =
     (case match_at (c # cs) of
        Some m \<Rightarrow> Some m
      | None \<Rightarrow> regex_match cs)"

section \<open>The token resolver\<close>

text \<open>\<^verbatim>\<open>variableValue.toString()\<close>; calling a method on undefined throws a TypeError.\<close>

fun toString :: "'n lib \<Rightarrow> 'n VariableValue \<Rightarrow> error + string" where
  "toString L Undefined = Inl TypeError"
| "toString L (Boolean b) = Inr (if b then ''true'' else ''false'')"
| "toString L (String s) = Inr s"
| "toString L (Number n) = Inr (number_toString L n)"
| "toString L (RGB _ _ _) = Inr ''[object Object]''"
| "toString L (RGBA _ _ _ _) = Inr ''[object Object]''"
| "toString L (VariableAlias _) = Inr ''[object Object]''"

text \<open>
  A mode id that is \<^verbatim>\<open>undefined\<close> (the node has no entry for the collection) is used as
  the property key \<^verbatim>\<open>"undefined"\<close>.
\<close>

definition property_key :: "string option \<Rightarrow> string" where
  "property_key k = (case k of None \<Rightarrow> ''undefined'' | Some s \<Rightarrow> s)"

text \<open>
  \<^verbatim>\<open>variableResolver\<close> (lines 85-109), a closure over the node's \<^verbatim>\<open>variable\<close> and
  \<^verbatim>\<open>modeId\<close>.
\<close>

definition variableResolver ::
  "'n lib \<Rightarrow> 'n figma \<Rightarrow> 'n Variable \<Rightarrow> string option \<Rightarrow> string \<Rightarrow> 'n VariableValue
     \<Rightarrow> error + string" where
  "variableResolver L F variable modeId resolver variableValue =
     (if resolver = ''v'' then toString L variableValue
      else if resolver = ''bound'' then
        (case getBoundedName F variable (property_key modeId) of
           Inl e \<Rightarrow> Inl e
         | Inr None \<Rightarrow> Inr ''N/A''
         | Inr (Some boundName) \<Rightarrow> Inr boundName)
      else
        (case getRGBA L variableValue of
           Inl e \<Rightarrow> Inl e
         | Inr c \<Rightarrow>
             (let rgba = color2k_rgba L (rgba_r c) (rgba_g c) (rgba_b c) (rgba_a c) in
              if resolver = ''rgba'' then Inr rgba
              else if resolver = ''hex'' then color2k_toHex L rgba
              else if resolver = ''r'' then Inr (number_toString L (rgba_r c))
              else if resolver = ''g'' then Inr (number_toString L (rgba_g c))
              else if resolver = ''b'' then Inr (number_toString L (rgba_b c))
              else if resolver = ''a'' then Inr (number_toString L (rgba_a c))
              else Inl (Error (''Variable resolver not found:'' @ resolver)))))"

section \<open>The template engine and the batch\<close>

definition VARIABLE_RESOLVERS :: "string list" where
  "VARIABLE_RESOLVERS = [''v'', ''hex'', ''rgba'', ''bound'', ''r'', ''g'', ''b'', ''a'']"

text \<open>
  The callbacks of lines 66 and 70 destructure each entry of the table with an array
  pattern, \<^verbatim>\<open>[key]\<close> and \<^verbatim>\<open>[key, value]\<close>. An entry is a string, and an array pattern
  iterates a string by characters: \<^verbatim>\<open>key\<close> is its first character and \<^verbatim>\<open>value\<close> its
  second one, or undefined when the string has a single character. (For the empty string
  \<^verbatim>\<open>key\<close> would be undefined, which the template literal and the concatenation of line
  108 print as \<^verbatim>\<open>undefined\<close>; no entry of the table is empty.)
\<close>

definition key_of :: "string \<Rightarrow> string" where
  "key_of s = (case s of [] \<Rightarrow> ''undefined'' | c # _ \<Rightarrow> [c])"

definition value_of :: "string \<Rightarrow> 'n VariableValue" where
  "value_of s = (case s of c # d # _ \<Rightarrow> String [d] | _ \<Rightarrow> Undefined)"

text \<open>Lines 66-68: the entries whose \<^verbatim>\<open>`%${key}`\<close> occurs in the format string.\<close>

definition used_resolvers :: "string \<Rightarrow> string list" where
  "used_resolvers fstring =
     filter (\<lambda>entry. string_includes fstring (CHR ''%'' # key_of entry)) VARIABLE_RESOLVERS"

text \<open>
  Lines 69-73: the \<^verbatim>\<open>reduce\<close>. The argument \<^verbatim>\<open>variableResolver(key, value)\<close> is evaluated
  before \<^verbatim>\<open>replaceAll\<close> runs, so an exception of the resolver ends the reduction.
\<close>

fun replace_variables ::
  "'n lib \<Rightarrow> 'n figma \<Rightarrow> 'n Variable \<Rightarrow> string option \<Rightarrow> string list \<Rightarrow> string
     \<Rightarrow> error + string" where
  "replace_variables L F variable modeId [] acc = Inr acc"
| "replace_variables L F variable modeId (entry # entries) acc =
     (case variableResolver L F variable modeId (key_of entry) (value_of entry) of
        Inl e \<Rightarrow> Inl e
      | Inr text \<Rightarrow>
          replace_variables L F variable modeId entries
            (replaceAll acc (CHR ''%'' # key_of entry) text))"

definition resultString ::
  "'n lib \<Rightarrow> 'n figma \<Rightarrow> 'n Variable \<Rightarrow> string option \<Rightarrow> string \<Rightarrow> error + string" where
  "resultString L F variable modeId fstring =
     replace_variables L F variable modeId (used_resolvers fstring) fstring"

text \<open>
  The same reduction, recording each call of line 71 to \<^verbatim>\<open>variableResolver\<close> as it is
  made: the pair of arguments is recorded, then the resolver runs, and a throw ends the
  reduction, so no later call is recorded. The second component is the result of
  \<open>replace_variables\<close> (lemma \<open>replace_variables_traced_result\<close> below).
\<close>

fun replace_variables_traced ::
  "'n lib \<Rightarrow> 'n figma \<Rightarrow> 'n Variable \<Rightarrow> string option \<Rightarrow> string list \<Rightarrow> string
     \<Rightarrow> (string \<times> 'n VariableValue) list \<times> (error + string)" where
  "replace_variables_traced L F variable modeId [] acc = ([], Inr acc)"
| "replace_variables_traced L F variable modeId (entry # entries) acc =
     (case variableResolver L F variable modeId (key_of entry) (value_of entry) of
        Inl e \<Rightarrow> ([(key_of entry, value_of entry)], Inl e)
      | Inr text \<Rightarrow>
          (case replace_variables_traced L F variable modeId entries
                  (replaceAll acc (CHR ''%'' # key_of entry) text) of
             (calls, result) \<Rightarrow> ((key_of entry, value_of entry) # calls, result)))"

definition resolver_calls ::
  "'n lib \<Rightarrow> 'n figma \<Rightarrow> 'n Variable \<Rightarrow> string option \<Rightarrow> string
     \<Rightarrow> (string \<times> 'n VariableValue) list" where
  "resolver_calls L F variable modeId fstring =
     fst (replace_variables_traced L F variable modeId (used_resolvers fstring) fstring)"

text \<open>Lines 24-26 and 34-42: the directory by name (a later entry replaces an earlier one).\<close>

definition variableMap :: "'n Variable list \<Rightarrow> (string \<rightharpoonup> 'n Variable)" where
  "variableMap variables = foldl (\<lambda>m v. m(variable_name v \<mapsto> v)) Map.empty variables"

definition getVariable :: "(string \<rightharpoonup> 'n Variable) \<Rightarrow> string \<Rightarrow> error + 'n Variable" where
  "getVariable m name =
     (case m name of
        None \<Rightarrow> Inl (Error (''Variable '' @ name @ '' not found''))
      | Some variable \<Rightarrow> Inr variable)"

text \<open>Lines 45-47: the text nodes whose name starts with \<^verbatim>\<open>%printf\<close>.\<close>

definition textNodesToRender :: "'n figma \<Rightarrow> SceneNode list" where
  "textNodesToRender F =
     filter (\<lambda>node. node_type node = TEXT)
       (filter (\<lambda>node. node_type node = TEXT \<and> startsWith (node_name node) ''%printf'')
          (currentPage F))"

text \<open>
  One pass of the loop body (lines 51-78): \<open>Inr None\<close> is \<^verbatim>\<open>continue\<close>, \<open>Inr (Some s)\<close> is
  the string assigned to \<^verbatim>\<open>node.characters\<close>, \<open>Inl e\<close> an exception. Reading \<^verbatim>\<open>id\<close> of a
  collection that is \<^verbatim>\<open>null\<close> throws a TypeError.
\<close>

definition render_node ::
  "'n lib \<Rightarrow> 'n figma \<Rightarrow> (string \<rightharpoonup> 'n Variable) \<Rightarrow> SceneNode \<Rightarrow> error + string option" where
  "render_node L F m node =
     (case regex_match (node_name node) of
        None \<Rightarrow> Inr None
      | Some (g1, g2) \<Rightarrow>
          (case getVariable m (trim g2) of
             Inl e \<Rightarrow> Inl e
           | Inr variable \<Rightarrow>
               (case getVariableCollectionById F (variableCollectionId variable) of
                  None \<Rightarrow> Inl TypeError
                | Some collection \<Rightarrow>
                    (case resultString L F variable
                            (resolvedVariableModes node (collection_id collection)) (trim g1) of
                       Inl e \<Rightarrow> Inl e
                     | Inr s \<Rightarrow>
                         (case loadFontAsync F (fontName node) of
                            Some e \<Rightarrow> Inl e
                          | None \<Rightarrow> Inr (Some s))))))"

text \<open>
  The loop of line 50 over the nodes from position \<open>i\<close> on. It returns the writes to
  \<^verbatim>\<open>node.characters\<close> in order, each with the position of its node in the batch, and the
  exception that ended the loop, if any. \<^verbatim>\<open>printedCount\<close> is the number of writes.
\<close>

fun render_loop ::
  "'n lib \<Rightarrow> 'n figma \<Rightarrow> (string \<rightharpoonup> 'n Variable) \<Rightarrow> nat \<Rightarrow> SceneNode list
     \<Rightarrow> (nat \<times> string) list \<times> error option" where
  "render_loop L F m i [] = ([], None)"
| "render_loop L F m i (node # nodes) =
     (case render_node L F m node of
        Inl e \<Rightarrow> ([], Some e)
      | Inr None \<Rightarrow> render_loop L F m (Suc i) nodes
      | Inr (Some s) \<Rightarrow>
          (case render_loop L F m (Suc i) nodes of
             (writes, thrown) \<Rightarrow> ((i, s) # writes, thrown)))"

record outcome =
  written :: "(nat \<times> string) list"
  thrown :: "error option"
  notified :: "string option"

text \<open>\<^verbatim>\<open>printVariablesFormatted\<close> (lines 22-113); line 112 runs only when the loop ends.\<close>

definition printVariablesFormatted :: "'n lib \<Rightarrow> 'n figma \<Rightarrow> outcome" where
  "printVariablesFormatted L F =
     (case render_loop L F (variableMap (getLocalVariables F)) 0 (textNodesToRender F) of
        (writes, None) \<Rightarrow>
          \<lparr>written = writes, thrown = None,
           notified = Some (''Printed '' @ decimal (length writes) @ '' variables'')\<rparr>
      | (writes, Some e) \<Rightarrow>
          \<lparr>written = writes, thrown = Some e, notified = None\<rparr>)"

section \<open>Example documents\<close>

text \<open>
  The scenario of section 8 of the specification: one variable \<^verbatim>\<open>Primary\<close> whose value at
  mode \<^verbatim>\<open>Light\<close> is the color red, and one text node that prints it. Numbers are reals
  here; every product below is exact in binary floating point as well.
\<close>

definition example_Primary :: "real Variable" where
  "example_Primary =
     \<lparr>variable_id = ''VariableID:1'', variable_name = ''Primary'',
      variableCollectionId = ''VariableCollectionId:1'',
      valuesByMode = [''Light'' \<mapsto> RGBA 1 0 0 1]\<rparr>"

definition example_node :: SceneNode where
  "example_node =
     \<lparr>node_type = TEXT, node_name = ''%printf(\"Color: %hex (%rgba)\", Primary)'',
      resolvedVariableModes = [''VariableCollectionId:1'' \<mapsto> ''Light''],
      fontName = ''Inter'', characters = []\<rparr>"

definition example_figma :: "real figma" where
  "example_figma =
     \<lparr>getLocalVariables = [example_Primary],
      getVariableById = [''VariableID:1'' \<mapsto> example_Primary],
      getVariableCollectionById =
        [''VariableCollectionId:1'' \<mapsto> \<lparr>collection_id = ''VariableCollectionId:1''\<rparr>],
      currentPage = [example_node],
      loadFontAsync = (\<lambda>font. None)\<rparr>"

text \<open>An alias chain: \<^verbatim>\<open>A\<close> aliases \<^verbatim>\<open>B\<close>, \<^verbatim>\<open>B\<close> aliases \<^verbatim>\<open>C\<close>, and \<^verbatim>\<open>C\<close> holds a color.\<close>

definition chain_C :: "real Variable" where
  "chain_C =
     \<lparr>variable_id = ''VariableID:C'', variable_name = ''C'',
      variableCollectionId = ''VariableCollectionId:1'',
      valuesByMode = [''M'' \<mapsto> RGBA 0 (1 / 2) 1 1]\<rparr>"

definition chain_B :: "real Variable" where
  "chain_B =
     \<lparr>variable_id = ''VariableID:B'', variable_name = ''B'',
      variableCollectionId = ''VariableCollectionId:1'',
      valuesByMode = [''M'' \<mapsto> VariableAlias ''VariableID:C'']\<rparr>"

definition chain_A :: "real Variable" where
  "chain_A =
     \<lparr>variable_id = ''VariableID:A'', variable_name = ''A'',
      variableCollectionId = ''VariableCollectionId:1'',
      valuesByMode = [''M'' \<mapsto> VariableAlias ''VariableID:B'']\<rparr>"

definition chain_figma :: "real figma" where
  "chain_figma =
     \<lparr>getLocalVariables = [chain_A, chain_B, chain_C],
      getVariableById = [''VariableID:A'' \<mapsto> chain_A, ''VariableID:B'' \<mapsto> chain_B,
                         ''VariableID:C'' \<mapsto> chain_C],
      getVariableCollectionById =
        [''VariableCollectionId:1'' \<mapsto> \<lparr>collection_id = ''VariableCollectionId:1''\<rparr>],
      currentPage = [],
      loadFontAsync = (\<lambda>font. None)\<rparr>"

text \<open>A batch of three nodes; the second one names a variable that does not exist.\<close>

definition batch_node :: "string \<Rightarrow> SceneNode" where
  "batch_node name =
     \<lparr>node_type = TEXT, node_name = name,
      resolvedVariableModes = [''VariableCollectionId:1'' \<mapsto> ''Light''],
      fontName = ''Inter'', characters = []\<rparr>"

definition batch_figma :: "real figma" where
  "batch_figma =
     example_figma\<lparr>currentPage :=
       [batch_node ''%printf(\"Hello\", Primary)'',
        batch_node ''%printf(\"%v\", Missing)'',
        batch_node ''%printf(\"Bye\", Primary)'']\<rparr>"

section \<open>Color normalisation\<close>

lemma all_four_keys_iff:
  "(has_key ''r'' v \<and> has_key ''g'' v \<and> has_key ''b'' v \<and> has_key ''a'' v) =
   (\<exists>r g b a. v = RGBA r g b a)"
  by (cases v) (simp_all add: has_key_def)

text \<open>
  C6. For every color value with the four components r, g, b, a, \<^verbatim>\<open>getRGBA\<close> returns the
  record whose r, g, b are the inputs multiplied by 255, with no rounding, and whose a is
  the input alpha unchanged. The statement holds for every interpretation of numbers and
  of their multiplication, whether or not the components lie in [0,1]. With exact
  arithmetic, \<^verbatim>\<open>{r:1, g:0, b:0.5, a:1}\<close> maps to \<^verbatim>\<open>{r:255, g:0, b:127.5, a:1}\<close>.
\<close>

theorem getRGBA_scales_by_255:
  "getRGBA L (RGBA r g b a) =
     Inr \<lparr>rgba_r = number_times L r (number_255 L), rgba_g = number_times L g (number_255 L),
          rgba_b = number_times L b (number_255 L), rgba_a = a\<rparr>
   \<and> getRGBA (L'\<lparr>number_times := (*), number_255 := 255\<rparr>) (RGBA 1 0 (1 / 2) (1::real)) =
     Inr \<lparr>rgba_r = 255, rgba_g = 0, rgba_b = 127.5, rgba_a = 1\<rparr>"
  by (simp add: getRGBA_def has_key_def)

text \<open>
  C8. \<^verbatim>\<open>getRGBA\<close> fails exactly when the value is not an object or lacks one of the keys
  r, g, b, a: it throws \<^verbatim>\<open>Variable value is not an object\<close> exactly for the values that
  are not objects, and \<^verbatim>\<open>Variable value is not an RGBA object\<close> exactly for the objects
  that lack one of the four keys (the two errors the specification calls NotAColor). For
  every object that has all four keys it succeeds and returns the scaled record.
\<close>

theorem getRGBA_fails_exactly_on_non_colors:
  "(getRGBA L v = Inl (Error ''Variable value is not an object'')) = (typeof v \<noteq> ''object'')
   \<and> (getRGBA L v = Inl (Error ''Variable value is not an RGBA object'')) =
       (typeof v = ''object'' \<and>
        \<not> (has_key ''r'' v \<and> has_key ''g'' v \<and> has_key ''b'' v \<and> has_key ''a'' v))
   \<and> (\<exists>e. getRGBA L v = Inl e) =
       (typeof v \<noteq> ''object'' \<or>
        \<not> (has_key ''r'' v \<and> has_key ''g'' v \<and> has_key ''b'' v \<and> has_key ''a'' v))
   \<and> (typeof v = ''object'' \<and>
        has_key ''r'' v \<and> has_key ''g'' v \<and> has_key ''b'' v \<and> has_key ''a'' v \<longrightarrow>
        getRGBA L v =
          Inr \<lparr>rgba_r = number_times L (prop_r v) (number_255 L),
               rgba_g = number_times L (prop_g v) (number_255 L),
               rgba_b = number_times L (prop_b v) (number_255 L), rgba_a = prop_a v\<rparr>)"
  by (simp add: getRGBA_def)

theorem getRGBA_fails_exactly_on_non_colors_witness:
  "\<forall>L :: real lib.
     typeof (String ''e'' :: real VariableValue) \<noteq> ''object''
     \<and> getRGBA L (String ''e'') = Inl (Error ''Variable value is not an object'')
     \<and> typeof (RGB 1 0 (0::real)) = ''object'' \<and> \<not> has_key ''a'' (RGB 1 0 (0::real))
     \<and> getRGBA L (RGB 1 0 0) = Inl (Error ''Variable value is not an RGBA object'')
     \<and> typeof (RGBA 1 0 0 (1::real)) = ''object''
     \<and> has_key ''r'' (RGBA 1 0 0 (1::real)) \<and> has_key ''g'' (RGBA 1 0 0 (1::real))
     \<and> has_key ''b'' (RGBA 1 0 0 (1::real)) \<and> has_key ''a'' (RGBA 1 0 0 (1::real))
     \<and> getRGBA L (RGBA 1 0 0 1) =
         Inr \<lparr>rgba_r = number_times L 1 (number_255 L), rgba_g = number_times L 0 (number_255 L),
              rgba_b = number_times L 0 (number_255 L), rgba_a = 1\<rparr>"
proof
  fix L :: "real lib"
  have s: "typeof (String ''e'' :: real VariableValue) \<noteq> ''object''"
    by simp
  have o: "typeof (RGB 1 0 (0::real)) = ''object''" "typeof (RGBA 1 0 0 (1::real)) = ''object''"
    by simp_all
  have k3: "\<not> has_key ''a'' (RGB 1 0 (0::real))"
    by (simp add: has_key_def)
  have k4: "has_key ''r'' (RGBA 1 0 0 (1::real))" "has_key ''g'' (RGBA 1 0 0 (1::real))"
    "has_key ''b'' (RGBA 1 0 0 (1::real))" "has_key ''a'' (RGBA 1 0 0 (1::real))"
    by (simp_all add: has_key_def)
  show "typeof (String ''e'' :: real VariableValue) \<noteq> ''object''
     \<and> getRGBA L (String ''e'') = Inl (Error ''Variable value is not an object'')
     \<and> typeof (RGB 1 0 (0::real)) = ''object'' \<and> \<not> has_key ''a'' (RGB 1 0 (0::real))
     \<and> getRGBA L (RGB 1 0 0) = Inl (Error ''Variable value is not an RGBA object'')
     \<and> typeof (RGBA 1 0 0 (1::real)) = ''object''
     \<and> has_key ''r'' (RGBA 1 0 0 (1::real)) \<and> has_key ''g'' (RGBA 1 0 0 (1::real))
     \<and> has_key ''b'' (RGBA 1 0 0 (1::real)) \<and> has_key ''a'' (RGBA 1 0 0 (1::real))
     \<and> getRGBA L (RGBA 1 0 0 1) =
         Inr \<lparr>rgba_r = number_times L 1 (number_255 L), rgba_g = number_times L 0 (number_255 L),
              rgba_b = number_times L 0 (number_255 L), rgba_a = 1\<rparr>"
    using getRGBA_fails_exactly_on_non_colors [of L "String ''e''"]
      getRGBA_fails_exactly_on_non_colors [of L "RGB 1 0 0"]
      getRGBA_fails_exactly_on_non_colors [of L "RGBA 1 0 0 1"]
      s o k3 k4
    by simp
qed

text \<open>
  C10. \<^verbatim>\<open>getRGBA\<close> validates no range: for every object with the keys r, g, b, a it returns
  the components multiplied by 255 and the alpha as it is, whatever their values, and
  raises no error. With exact arithmetic the color \<^verbatim>\<open>{r:2, g:-1, b:3, a:5}\<close> gives channels
  outside [0,255] and an alpha outside [0,1].
\<close>

theorem getRGBA_validates_no_range:
  "(typeof v = ''object'' \<and>
    has_key ''r'' v \<and> has_key ''g'' v \<and> has_key ''b'' v \<and> has_key ''a'' v \<longrightarrow>
      getRGBA L v =
        Inr \<lparr>rgba_r = number_times L (prop_r v) (number_255 L),
             rgba_g = number_times L (prop_g v) (number_255 L),
             rgba_b = number_times L (prop_b v) (number_255 L), rgba_a = prop_a v\<rparr>)
   \<and> (\<exists>w c. getRGBA (L'\<lparr>number_times := (*), number_255 := 255\<rparr>) w = Inr c
        \<and> (255::real) < rgba_r c \<and> rgba_g c < 0 \<and> 255 < rgba_b c \<and> 1 < rgba_a c)"
proof -
  have "getRGBA (L'\<lparr>number_times := (*), number_255 := 255\<rparr>) (RGBA 2 (- 1) 3 5) =
      Inr \<lparr>rgba_r = 510, rgba_g = - 255, rgba_b = 765, rgba_a = 5\<rparr>"
    by (simp add: getRGBA_def has_key_def)
  then have "\<exists>w c. getRGBA (L'\<lparr>number_times := (*), number_255 := 255\<rparr>) w = Inr c
        \<and> (255::real) < rgba_r c \<and> rgba_g c < 0 \<and> 255 < rgba_b c \<and> 1 < rgba_a c"
    by force
  then show ?thesis by (simp add: getRGBA_def)
qed

theorem getRGBA_validates_no_range_witness:
  "\<forall>L :: real lib.
     typeof (RGBA 2 (- 1) 3 (5::real)) = ''object''
     \<and> has_key ''r'' (RGBA 2 (- 1) 3 (5::real)) \<and> has_key ''g'' (RGBA 2 (- 1) 3 (5::real))
     \<and> has_key ''b'' (RGBA 2 (- 1) 3 (5::real)) \<and> has_key ''a'' (RGBA 2 (- 1) 3 (5::real))
     \<and> getRGBA (L\<lparr>number_times := (*), number_255 := 255\<rparr>) (RGBA 2 (- 1) 3 5) =
         Inr \<lparr>rgba_r = 510, rgba_g = - 255, rgba_b = 765, rgba_a = 5\<rparr>"
proof
  fix L :: "real lib"
  have o: "typeof (RGBA 2 (- 1) 3 (5::real)) = ''object''"
    by simp
  have k: "has_key ''r'' (RGBA 2 (- 1) 3 (5::real))" "has_key ''g'' (RGBA 2 (- 1) 3 (5::real))"
    "has_key ''b'' (RGBA 2 (- 1) 3 (5::real))" "has_key ''a'' (RGBA 2 (- 1) 3 (5::real))"
    by (simp_all add: has_key_def)
  show "typeof (RGBA 2 (- 1) 3 (5::real)) = ''object''
     \<and> has_key ''r'' (RGBA 2 (- 1) 3 (5::real)) \<and> has_key ''g'' (RGBA 2 (- 1) 3 (5::real))
     \<and> has_key ''b'' (RGBA 2 (- 1) 3 (5::real)) \<and> has_key ''a'' (RGBA 2 (- 1) 3 (5::real))
     \<and> getRGBA (L\<lparr>number_times := (*), number_255 := 255\<rparr>) (RGBA 2 (- 1) 3 5) =
         Inr \<lparr>rgba_r = 510, rgba_g = - 255, rgba_b = 765, rgba_a = 5\<rparr>"
    using getRGBA_validates_no_range
        [of "RGBA 2 (- 1) 3 5" "L\<lparr>number_times := (*), number_255 := 255\<rparr>"] o k
    by simp
qed

section \<open>Aliases\<close>

lemma isVariableAlias_iff: "isVariableAlias v = (\<exists>i. v = VariableAlias i)"
  by (cases v) (simp_all add: isVariableAlias_def has_key_def)

lemma evaluateVariable_terminal:
  "\<not> isVariableAlias (value_at variable modeId) \<Longrightarrow>
   evaluateVariable F variable modeId = Some (Inr (value_at variable modeId))"
  by (subst evaluateVariable.simps) simp

lemma evaluateVariable_alias:
  "value_at variable modeId = VariableAlias i \<Longrightarrow> getVariableById F i = Some boundVariable \<Longrightarrow>
   evaluateVariable F variable modeId = evaluateVariable F boundVariable modeId"
  by (subst evaluateVariable.simps) (simp add: isVariableAlias_iff)

lemma chain_values:
  "value_at chain_A ''M'' = VariableAlias ''VariableID:B''"
  "value_at chain_B ''M'' = VariableAlias ''VariableID:C''"
  "value_at chain_C ''M'' = RGBA 0 (1 / 2) 1 1"
  by (simp_all add: value_at_def chain_A_def chain_B_def chain_C_def)

lemma chain_lookups:
  "getVariableById chain_figma ''VariableID:B'' = Some chain_B"
  "getVariableById chain_figma ''VariableID:C'' = Some chain_C"
  by (simp_all add: chain_figma_def)

text \<open>
  C4. \<^verbatim>\<open>evaluateVariable\<close> returns the variable's stored value at the mode when that value
  is not an alias; when it is an alias whose id resolves, the result is the result of
  evaluating the aliased variable at the same mode. Hence, when a variable aliases a second
  one that holds a terminal value at the mode, evaluation returns that terminal value.
\<close>

theorem evaluateVariable_follows_alias_chain:
  "(\<not> isVariableAlias (value_at variable modeId) \<longrightarrow>
      evaluateVariable F variable modeId = Some (Inr (value_at variable modeId)))
   \<and> (value_at variable modeId = VariableAlias i \<and> getVariableById F i = Some boundVariable \<longrightarrow>
      evaluateVariable F variable modeId = evaluateVariable F boundVariable modeId)
   \<and> (value_at variable modeId = VariableAlias i \<and> getVariableById F i = Some boundVariable \<and>
      value_at boundVariable modeId = c \<and> \<not> isVariableAlias c \<longrightarrow>
      evaluateVariable F variable modeId = Some (Inr c))"
  using evaluateVariable_terminal evaluateVariable_alias by metis

theorem evaluateVariable_follows_alias_chain_witness:
  "\<not> isVariableAlias (value_at chain_C ''M'')
   \<and> evaluateVariable chain_figma chain_C ''M'' = Some (Inr (RGBA 0 (1 / 2) 1 1))
   \<and> value_at chain_A ''M'' = VariableAlias ''VariableID:B''
   \<and> getVariableById chain_figma ''VariableID:B'' = Some chain_B
   \<and> evaluateVariable chain_figma chain_A ''M'' = evaluateVariable chain_figma chain_B ''M''
   \<and> value_at chain_B ''M'' = VariableAlias ''VariableID:C''
   \<and> getVariableById chain_figma ''VariableID:C'' = Some chain_C
   \<and> evaluateVariable chain_figma chain_B ''M'' = Some (Inr (RGBA 0 (1 / 2) 1 1))"
proof -
  have t: "\<not> isVariableAlias (RGBA 0 (1 / 2) 1 (1::real))"
    by (simp add: isVariableAlias_def has_key_def)
  show ?thesis
    using evaluateVariable_follows_alias_chain
        [where variable = chain_C and modeId = "''M''" and F = chain_figma]
      evaluateVariable_follows_alias_chain
        [where variable = chain_A and modeId = "''M''" and i = "''VariableID:B''"
          and F = chain_figma and boundVariable = chain_B]
      evaluateVariable_follows_alias_chain
        [where variable = chain_B and modeId = "''M''" and i = "''VariableID:C''"
          and F = chain_figma and boundVariable = chain_C and c = "RGBA 0 (1 / 2) 1 1"]
      chain_values chain_lookups t
    by simp
qed

lemma variableResolver_bound:
  "(value_at variable (property_key modeId) = VariableAlias i \<and>
    getVariableById F i = Some boundVariable \<longrightarrow>
      variableResolver L F variable modeId ''bound'' v = Inr (variable_name boundVariable))
   \<and> (\<not> isVariableAlias (value_at variable (property_key modeId)) \<longrightarrow>
      variableResolver L F variable modeId ''bound'' v = Inr ''N/A'')"
  by (simp add: variableResolver_def getBoundedName_def isVariableAlias_iff)

section \<open>Token substitution\<close>

text \<open>
  Every call the reduction makes to the resolver throws: the first character of an entry
  is never \<^verbatim>\<open>bound\<close>, and the second character, or undefined, is never a color. So a
  format string comes back unchanged when the filter selects no entry, and the reduction
  throws when it selects one.
\<close>

lemma value_of_cases: "value_of entry = Undefined \<or> (\<exists>d. value_of entry = String [d])"
  by (cases entry; cases "tl entry") (auto simp add: value_of_def)

lemma variableResolver_table_throws:
  "entry \<in> set VARIABLE_RESOLVERS \<Longrightarrow>
   \<exists>e. variableResolver L F variable modeId (key_of entry) (value_of entry) = Inl e"
  by (auto simp add: VARIABLE_RESOLVERS_def variableResolver_def key_of_def value_of_def
      getRGBA_def)

lemma replace_variables_throws:
  "entries \<noteq> [] \<Longrightarrow> set entries \<subseteq> set VARIABLE_RESOLVERS \<Longrightarrow>
   \<exists>e. replace_variables L F variable modeId entries acc = Inl e"
  using variableResolver_table_throws [of "hd entries" L F variable modeId]
  by (cases entries) auto

lemma resultString_throws:
  "used_resolvers fstring \<noteq> [] \<Longrightarrow> \<exists>e. resultString L F variable modeId fstring = Inl e"
  unfolding resultString_def
  by (rule replace_variables_throws) (auto simp add: used_resolvers_def)

lemma resultString_unchanged:
  "used_resolvers fstring = [] \<Longrightarrow> resultString L F variable modeId fstring = Inr fstring"
  by (simp add: resultString_def)

lemma used_resolvers_scenario:
  "used_resolvers ''Color: %hex (%rgba)'' = [''hex'', ''rgba'', ''r'']"
  by (simp add: used_resolvers_def VARIABLE_RESOLVERS_def key_of_def startsWith_def)

lemma resultString_scenario:
  "resultString L F variable modeId ''Color: %hex (%rgba)'' =
     Inl (Error ''Variable value is not an object'')"
  by (simp add: resultString_def used_resolvers_scenario variableResolver_def key_of_def
      value_of_def getRGBA_def)

lemma table_entries:
  "entry \<in> set VARIABLE_RESOLVERS \<Longrightarrow>
   entry = ''v'' \<or> entry = ''hex'' \<or> entry = ''rgba'' \<or> entry = ''bound'' \<or>
   entry = ''r'' \<or> entry = ''g'' \<or> entry = ''b'' \<or> entry = ''a''"
  by (simp add: VARIABLE_RESOLVERS_def)

lemma variableResolver_table_result:
  assumes "entry \<in> set VARIABLE_RESOLVERS"
  shows "variableResolver L F variable modeId (key_of entry) (value_of entry) =
     (if entry = ''v'' then Inl TypeError
      else Inl (Error ''Variable value is not an object''))"
proof -
  from table_entries [OF assms]
  consider "entry = ''v''" | "entry = ''hex''" | "entry = ''rgba''" | "entry = ''bound''"
    | "entry = ''r''" | "entry = ''g''" | "entry = ''b''" | "entry = ''a''"
    by blast
  then show ?thesis
    by cases (simp_all add: variableResolver_def key_of_def value_of_def getRGBA_def)
qed

lemma key_of_table_is_not_bound:
  assumes "entry \<in> set VARIABLE_RESOLVERS"
  shows "key_of entry \<noteq> ''bound''"
proof -
  from table_entries [OF assms]
  consider "entry = ''v''" | "entry = ''hex''" | "entry = ''rgba''" | "entry = ''bound''"
    | "entry = ''r''" | "entry = ''g''" | "entry = ''b''" | "entry = ''a''"
    by blast
  then show ?thesis
    by cases (simp_all add: key_of_def)
qed

lemma replace_variables_traced_result:
  "snd (replace_variables_traced L F variable modeId entries acc) =
   replace_variables L F variable modeId entries acc"
  by (induction entries arbitrary: acc) (simp_all add: split_beta split: sum.splits)

lemma resolver_calls_result:
  "replace_variables_traced L F variable modeId (used_resolvers fstring) fstring =
     (resolver_calls L F variable modeId fstring, resultString L F variable modeId fstring)"
  by (simp add: resolver_calls_def resultString_def prod_eq_iff replace_variables_traced_result)

lemma replace_variables_traced_values:
  "(k, x) \<in> set (fst (replace_variables_traced L F variable modeId entries acc)) \<Longrightarrow>
   x = Undefined \<or> (\<exists>d. x = String [d])"
proof (induction entries arbitrary: acc)
  case Nil
  then show ?case by simp
next
  case (Cons entry entries)
  show ?case
  proof (cases "variableResolver L F variable modeId (key_of entry) (value_of entry)")
    case (Inl e)
    with Cons.prems have "x = value_of entry" by simp
    then show ?thesis using value_of_cases [of entry] by simp
  next
    case (Inr t)
    with Cons.prems have "x = value_of entry \<or>
        (k, x) \<in> set (fst (replace_variables_traced L F variable modeId entries
          (replaceAll acc (CHR ''%'' # key_of entry) t)))"
      by (auto simp add: split_beta)
    then show ?thesis
    proof
      assume "x = value_of entry"
      then show ?thesis using value_of_cases [of entry] by simp
    next
      assume "(k, x) \<in> set (fst (replace_variables_traced L F variable modeId entries
          (replaceAll acc (CHR ''%'' # key_of entry) t)))"
      then show ?thesis by (rule Cons.IH)
    qed
  qed
qed

lemma replace_variables_ignores_variable:
  "set entries \<subseteq> set VARIABLE_RESOLVERS \<Longrightarrow>
   replace_variables L F variable modeId entries acc =
   replace_variables L' F' variable' modeId' entries acc"
  by (cases entries) (simp_all add: variableResolver_table_result)

lemma resultString_ignores_variable:
  "resultString L F variable modeId fstring = resultString L' F' variable' modeId' fstring"
  unfolding resultString_def
  by (rule replace_variables_ignores_variable) (auto simp add: used_resolvers_def)

text \<open>
  C1 (the code departs from the claim). The claim: the value handed to the token resolver
  is the result of \<^verbatim>\<open>evaluateVariable\<close> on the looked-up variable at the node's mode. The
  source never calls \<^verbatim>\<open>evaluateVariable\<close>: the value the reduction hands over is the
  second character of the table entry. For the node of the scenario, with \<^verbatim>\<open>Primary\<close> at
  mode \<^verbatim>\<open>Light\<close> and the template \<^verbatim>\<open>Color: %hex (%rgba)\<close>, the reduction makes one call
  to the resolver, with the key h and the value "e", and that call throws, while
  evaluating \<^verbatim>\<open>Primary\<close> at \<^verbatim>\<open>Light\<close> gives the color \<^verbatim>\<open>{r:1, g:0, b:0, a:1}\<close>. The
  first conjunct ties the recorded calls to the reduction: the traced reduction returns
  the calls together with the result of \<open>resultString\<close>.
\<close>

theorem reduce_hands_table_character_to_resolver:
  "replace_variables_traced L example_figma example_Primary (Some ''Light'')
       (used_resolvers ''Color: %hex (%rgba)'') ''Color: %hex (%rgba)'' =
     (resolver_calls L example_figma example_Primary (Some ''Light'') ''Color: %hex (%rgba)'',
      resultString L example_figma example_Primary (Some ''Light'') ''Color: %hex (%rgba)'')
   \<and> resolver_calls L example_figma example_Primary (Some ''Light'') ''Color: %hex (%rgba)'' =
       [(''h'', String ''e'')]
   \<and> resultString L example_figma example_Primary (Some ''Light'') ''Color: %hex (%rgba)'' =
       Inl (Error ''Variable value is not an object'')
   \<and> evaluateVariable example_figma example_Primary ''Light'' = Some (Inr (RGBA 1 0 0 1))"
proof -
  have v: "value_at example_Primary ''Light'' = RGBA 1 0 0 1"
    by (simp add: value_at_def example_Primary_def)
  have e: "evaluateVariable example_figma example_Primary ''Light'' = Some (Inr (RGBA 1 0 0 1))"
    using evaluateVariable_terminal [of example_Primary "''Light''" example_figma]
    by (simp add: v isVariableAlias_iff)
  have h: "variableResolver L example_figma example_Primary (Some ''Light'') ''h'' (String ''e'') =
      Inl (Error ''Variable value is not an object'')"
    by (simp add: variableResolver_def getRGBA_def)
  have c: "resolver_calls L example_figma example_Primary (Some ''Light'')
      ''Color: %hex (%rgba)'' = [(''h'', String ''e'')]"
    by (simp add: resolver_calls_def used_resolvers_scenario key_of_def value_of_def h)
  show ?thesis
    by (simp add: resolver_calls_result c e resultString_scenario)
qed

lemma used_resolvers_bound: "used_resolvers ''%bound'' = [''bound'', ''b'']"
  by (simp add: used_resolvers_def VARIABLE_RESOLVERS_def key_of_def startsWith_def)

lemma variableResolver_b_o:
  "variableResolver L F variable modeId ''b'' (String ''o'') =
     Inl (Error ''Variable value is not an object'')"
  by (simp add: variableResolver_def getRGBA_def)

lemma resultString_bound:
  "resultString L F variable modeId ''%bound'' =
     Inl (Error ''Variable value is not an object'')"
  by (simp add: resultString_def used_resolvers_bound key_of_def value_of_def
      variableResolver_b_o)

lemma resolver_calls_bound:
  "resolver_calls L F variable modeId ''%bound'' = [(''b'', String ''o'')]"
  by (simp add: resolver_calls_def used_resolvers_bound key_of_def value_of_def
      variableResolver_b_o)

text \<open>
  C5 (the code departs from the claim). The claim: the token \<^verbatim>\<open>bound\<close> renders the name of
  the variable one alias hop away, or \<^verbatim>\<open>N/A\<close> when the value is not an alias. The branch
  of the resolver for \<^verbatim>\<open>bound\<close> does so (lemma \<open>variableResolver_bound\<close>; for the chain,
  the resolver called with \<^verbatim>\<open>bound\<close> on \<^verbatim>\<open>A\<close> returns \<^verbatim>\<open>B\<close>), but the reduction never
  calls the resolver with \<^verbatim>\<open>bound\<close>: for the template \<^verbatim>\<open>%bound\<close> the filter selects the
  entries \<^verbatim>\<open>bound\<close> and \<^verbatim>\<open>b\<close>, the one call made hands over the key b and the value
  "o", and the result is the error of \<^verbatim>\<open>getRGBA\<close>, for every variable, mode and host,
  whether the value is an alias (\<^verbatim>\<open>A\<close>) or not (\<^verbatim>\<open>C\<close>).
\<close>

theorem bound_token_throws:
  "resultString L F variable modeId ''%bound'' =
     Inl (Error ''Variable value is not an object'')
   \<and> resolver_calls L F variable modeId ''%bound'' = [(''b'', String ''o'')]
   \<and> resultString K chain_figma chain_A (Some ''M'') ''%bound'' =
       Inl (Error ''Variable value is not an object'')
   \<and> resultString K chain_figma chain_C (Some ''M'') ''%bound'' =
       Inl (Error ''Variable value is not an object'')
   \<and> variableResolver K chain_figma chain_A (Some ''M'') ''bound'' v = Inr ''B''
   \<and> variableResolver K chain_figma chain_C (Some ''M'') ''bound'' v = Inr ''N/A''"
proof -
  have k: "property_key (Some ''M'') = ''M''"
    by (simp add: property_key_def)
  have a: "variableResolver K chain_figma chain_A (Some ''M'') ''bound'' v = Inr ''B''"
    using variableResolver_bound
        [where variable = chain_A and modeId = "Some ''M''" and i = "''VariableID:B''"
          and F = chain_figma and boundVariable = chain_B and L = K and v = v]
    by (simp add: k chain_values chain_lookups chain_B_def)
  have n: "variableResolver K chain_figma chain_C (Some ''M'') ''bound'' v = Inr ''N/A''"
    using variableResolver_bound
        [where variable = chain_C and modeId = "Some ''M''" and F = chain_figma and L = K
          and v = v]
    by (simp add: k chain_values isVariableAlias_iff)
  show ?thesis
    using a n by (simp add: resultString_bound resolver_calls_bound)
qed

text \<open>
  C2 (the code departs from the claim). The claim: every occurrence of each of the eight
  tokens is replaced by the resolver's output. In the source the key tested and replaced is
  the first character of the token name, and the resolver throws on every call: a template
  with all eight tokens ends in a TypeError (\<^verbatim>\<open>toString\<close> of undefined), and the template
  \<^verbatim>\<open>%hex\<close> ends in the error of \<^verbatim>\<open>getRGBA\<close>, for every variable, mode and host.
\<close>

theorem token_substitution_throws:
  "resultString L F variable modeId ''%v %hex %rgba %bound %r %g %b %a'' = Inl TypeError
   \<and> resultString L F variable modeId ''%hex'' =
       Inl (Error ''Variable value is not an object'')"
proof -
  have a: "used_resolvers ''%v %hex %rgba %bound %r %g %b %a'' = VARIABLE_RESOLVERS"
    by (simp add: used_resolvers_def VARIABLE_RESOLVERS_def key_of_def startsWith_def)
  have h: "used_resolvers ''%hex'' = [''hex'']"
    by (simp add: used_resolvers_def VARIABLE_RESOLVERS_def key_of_def startsWith_def)
  have "resultString L F variable modeId ''%v %hex %rgba %bound %r %g %b %a'' = Inl TypeError"
    unfolding resultString_def a
    by (simp add: VARIABLE_RESOLVERS_def variableResolver_def key_of_def value_of_def)
  moreover have "resultString L F variable modeId ''%hex'' =
      Inl (Error ''Variable value is not an object'')"
    unfolding resultString_def h
    by (simp add: variableResolver_def key_of_def value_of_def getRGBA_def)
  ultimately show ?thesis by simp
qed

text \<open>
  C7 (the code departs from the claim). The claim: a percent sign that does not begin one
  of the eight token markers passes through unchanged. The templates \<^verbatim>\<open>%unknown\<close> and
  \<^verbatim>\<open>100%\<close> do come back unchanged, but \<^verbatim>\<open>%hello\<close>, which begins none of the eight
  markers, contains \<^verbatim>\<open>%h\<close>, the first character of \<^verbatim>\<open>hex\<close>, and the source throws.
\<close>

theorem percent_hello_throws:
  "resultString L F variable modeId ''%hello'' =
     Inl (Error ''Variable value is not an object'')
   \<and> resultString L F variable modeId ''%unknown'' = Inr ''%unknown''
   \<and> resultString L F variable modeId ''100%'' = Inr ''100%''"
proof -
  have h: "used_resolvers ''%hello'' = [''hex'']"
    by (simp add: used_resolvers_def VARIABLE_RESOLVERS_def key_of_def startsWith_def)
  have u: "used_resolvers ''%unknown'' = []"
    by (simp add: used_resolvers_def VARIABLE_RESOLVERS_def key_of_def startsWith_def)
  have p: "used_resolvers ''100%'' = []"
    by (simp add: used_resolvers_def VARIABLE_RESOLVERS_def key_of_def startsWith_def)
  have "resultString L F variable modeId ''%hello'' =
      Inl (Error ''Variable value is not an object'')"
    unfolding resultString_def h
    by (simp add: variableResolver_def key_of_def value_of_def getRGBA_def)
  then show ?thesis
    by (simp add: resultString_unchanged u p)
qed

section \<open>The batch\<close>

lemma regex_match_scenario:
  "regex_match (node_name example_node) = Some (''Color: %hex (%rgba)'', ''Primary'')"
  by (simp add: example_node_def match_at_def startsWith_def dot_def try_group1_def
      match_group2_def)

lemma trim_scenario:
  "trim ''Color: %hex (%rgba)'' = ''Color: %hex (%rgba)''"
  "trim ''Primary'' = ''Primary''"
  "trim ''Hello'' = ''Hello''"
  "trim ''Missing'' = ''Missing''"
  by (simp_all add: trim_def is_white_space_def)

text \<open>
  C3 (the code departs from the claim). The claim: with \<^verbatim>\<open>Primary\<close> red at mode
  \<^verbatim>\<open>Light\<close>, the node named \<^verbatim>\<open>%printf("Color: %hex (%rgba)", Primary)\<close> is rendered as
  \<^verbatim>\<open>Color: #ff0000 (rgba(255, 0, 0, 1))\<close>. In the source the run writes no node, shows no
  notification and ends with the error \<^verbatim>\<open>Variable value is not an object\<close>, whatever the
  color library computes.
\<close>

theorem end_to_end_scenario_throws:
  "printVariablesFormatted L example_figma =
     \<lparr>written = [], thrown = Some (Error ''Variable value is not an object''),
      notified = None\<rparr>"
proof -
  have n: "textNodesToRender example_figma = [example_node]"
    by (simp add: textNodesToRender_def example_figma_def)
      (simp add: example_node_def startsWith_def)
  have m: "variableMap (getLocalVariables example_figma) = [''Primary'' \<mapsto> example_Primary]"
    by (simp add: variableMap_def example_figma_def example_Primary_def)
  have c: "getVariableCollectionById example_figma (variableCollectionId example_Primary) =
      Some \<lparr>collection_id = ''VariableCollectionId:1''\<rparr>"
    by (simp add: example_figma_def example_Primary_def)
  have r: "render_node L example_figma [''Primary'' \<mapsto> example_Primary] example_node =
      Inl (Error ''Variable value is not an object'')"
    by (simp add: render_node_def regex_match_scenario trim_scenario getVariable_def c
        resultString_scenario)
  show ?thesis
    by (simp add: printVariablesFormatted_def n m r)
qed

lemma render_node_not_found:
  "regex_match (node_name node) = Some (g1, g2) \<Longrightarrow> m (trim g2) = None \<Longrightarrow>
   render_node L F m node = Inl (Error (''Variable '' @ trim g2 @ '' not found''))"
  by (simp add: render_node_def getVariable_def)

lemma render_loop_aborts:
  "render_node L F m node = Inl e \<Longrightarrow>
   \<exists>ws e'. render_loop L F m i (pre @ node # post) = (ws, Some e')
     \<and> (\<forall>w \<in> set ws. fst w < i + length pre)"
proof (induction pre arbitrary: i)
  case Nil
  then show ?case by simp
next
  case (Cons n pre)
  from Cons.IH [OF Cons.prems, of "Suc i"] obtain ws e'
    where r: "render_loop L F m (Suc i) (pre @ node # post) = (ws, Some e')"
      and b: "\<forall>w \<in> set ws. fst w < Suc i + length pre"
    by blast
  show ?case
  proof (cases "render_node L F m n")
    case (Inl x)
    then show ?thesis by simp
  next
    case (Inr res)
    then show ?thesis using r b by (cases res) auto
  qed
qed

lemma render_loop_first_error:
  "render_node L F m node = Inl e \<Longrightarrow> \<forall>n \<in> set pre. \<exists>r. render_node L F m n = Inr r \<Longrightarrow>
   snd (render_loop L F m i (pre @ node # post)) = Some e"
proof (induction pre arbitrary: i)
  case Nil
  then show ?case by simp
next
  case (Cons n pre)
  then obtain res where n: "render_node L F m n = Inr res" by auto
  from Cons have "snd (render_loop L F m (Suc i) (pre @ node # post)) = Some e" by simp
  then show ?case using n by (cases res) (auto split: prod.splits)
qed

lemma batch_nodes:
  "textNodesToRender batch_figma =
     [batch_node ''%printf(\"Hello\", Primary)''] @ batch_node ''%printf(\"%v\", Missing)''
       # [batch_node ''%printf(\"Bye\", Primary)'']"
  by (simp add: textNodesToRender_def batch_figma_def batch_node_def startsWith_def)

lemma batch_match:
  "regex_match (node_name (batch_node ''%printf(\"%v\", Missing)'')) = Some (''%v'', ''Missing'')"
  "regex_match (node_name (batch_node ''%printf(\"Hello\", Primary)'')) =
     Some (''Hello'', ''Primary'')"
  by (simp_all add: batch_node_def match_at_def startsWith_def dot_def try_group1_def
      match_group2_def)

lemma batch_map:
  "variableMap (getLocalVariables batch_figma) = [''Primary'' \<mapsto> example_Primary]"
  by (simp add: variableMap_def batch_figma_def example_figma_def example_Primary_def)

lemma batch_first:
  "render_node L batch_figma [''Primary'' \<mapsto> example_Primary]
     (batch_node ''%printf(\"Hello\", Primary)'') = Inr (Some ''Hello'')"
proof -
  have u: "used_resolvers ''Hello'' = []"
    by (simp add: used_resolvers_def VARIABLE_RESOLVERS_def key_of_def startsWith_def)
  have c: "getVariableCollectionById batch_figma (variableCollectionId example_Primary) =
      Some \<lparr>collection_id = ''VariableCollectionId:1''\<rparr>"
    by (simp add: batch_figma_def example_figma_def example_Primary_def)
  have f: "loadFontAsync batch_figma font = None" for font
    by (simp add: batch_figma_def example_figma_def)
  show ?thesis
    by (simp add: render_node_def batch_match trim_scenario getVariable_def c
        resultString_def u f)
qed

text \<open>
  C9. When a node of the batch matches the \<^verbatim>\<open>%printf\<close> pattern and names a variable that
  the directory does not hold, the lookup fails with \<^verbatim>\<open>Variable <name> not found\<close> (the
  specification's NotFound) and the run aborts: it ends with an exception, every write it
  made is to a node before that one, so neither that node nor any node after it is
  rendered, and the notification is not shown. When every node before it is skipped or
  rendered, the exception that ends the run is that NotFound error.
\<close>

theorem missing_variable_aborts_batch:
  assumes "textNodesToRender F = pre @ node # post"
    and "regex_match (node_name node) = Some (g1, g2)"
    and "variableMap (getLocalVariables F) (trim g2) = None"
  shows "getVariable (variableMap (getLocalVariables F)) (trim g2) =
           Inl (Error (''Variable '' @ trim g2 @ '' not found''))
    \<and> thrown (printVariablesFormatted L F) \<noteq> None
    \<and> notified (printVariablesFormatted L F) = None
    \<and> (\<forall>w \<in> set (written (printVariablesFormatted L F)). fst w < length pre)
    \<and> ((\<forall>n \<in> set pre. \<exists>r. render_node L F (variableMap (getLocalVariables F)) n = Inr r) \<longrightarrow>
         thrown (printVariablesFormatted L F) =
           Some (Error (''Variable '' @ trim g2 @ '' not found'')))"
proof -
  let ?m = "variableMap (getLocalVariables F)"
  let ?e = "Error (''Variable '' @ trim g2 @ '' not found'')"
  have node: "render_node L F ?m node = Inl ?e"
    using assms(2,3) by (rule render_node_not_found)
  obtain ws e' where loop: "render_loop L F ?m 0 (pre @ node # post) = (ws, Some e')"
    and early: "\<forall>w \<in> set ws. fst w < 0 + length pre"
    using render_loop_aborts [OF node] by blast
  have out: "printVariablesFormatted L F = \<lparr>written = ws, thrown = Some e', notified = None\<rparr>"
    by (simp add: printVariablesFormatted_def assms(1) loop)
  have first: "(\<forall>n \<in> set pre. \<exists>r. render_node L F ?m n = Inr r) \<longrightarrow> e' = ?e"
    using render_loop_first_error [OF node, of pre 0 post] loop by auto
  show ?thesis
    using assms(3) out early first by (simp add: getVariable_def)
qed

theorem missing_variable_aborts_batch_witness:
  "\<forall>L. textNodesToRender batch_figma =
       [batch_node ''%printf(\"Hello\", Primary)''] @ batch_node ''%printf(\"%v\", Missing)''
         # [batch_node ''%printf(\"Bye\", Primary)'']
     \<and> regex_match (node_name (batch_node ''%printf(\"%v\", Missing)'')) = Some (''%v'', ''Missing'')
     \<and> variableMap (getLocalVariables batch_figma) (trim ''Missing'') = None
     \<and> getVariable (variableMap (getLocalVariables batch_figma)) ''Missing'' =
         Inl (Error ''Variable Missing not found'')
     \<and> thrown (printVariablesFormatted L batch_figma) = Some (Error ''Variable Missing not found'')
     \<and> notified (printVariablesFormatted L batch_figma) = None
     \<and> (\<forall>w \<in> set (written (printVariablesFormatted L batch_figma)). fst w < 1)"
proof
  fix L :: "real lib"
  have m: "variableMap (getLocalVariables batch_figma) (trim ''Missing'') = None"
    by (simp add: batch_map trim_scenario)
  show "textNodesToRender batch_figma =
       [batch_node ''%printf(\"Hello\", Primary)''] @ batch_node ''%printf(\"%v\", Missing)''
         # [batch_node ''%printf(\"Bye\", Primary)'']
     \<and> regex_match (node_name (batch_node ''%printf(\"%v\", Missing)'')) = Some (''%v'', ''Missing'')
     \<and> variableMap (getLocalVariables batch_figma) (trim ''Missing'') = None
     \<and> getVariable (variableMap (getLocalVariables batch_figma)) ''Missing'' =
         Inl (Error ''Variable Missing not found'')
     \<and> thrown (printVariablesFormatted L batch_figma) = Some (Error ''Variable Missing not found'')
     \<and> notified (printVariablesFormatted L batch_figma) = None
     \<and> (\<forall>w \<in> set (written (printVariablesFormatted L batch_figma)). fst w < 1)"
    using missing_variable_aborts_batch [OF batch_nodes batch_match(1) m, of L]
      batch_nodes batch_match(1) m batch_first [of L]
    by (simp add: trim_scenario batch_map)
qed

end
